theory Spec2Isabelle
  imports Complex_Main
begin

section \<open>Scoped focusgroup polyfill: a shallow embedding of src/index.ts\<close>

text \<open>
  Elements are values of a type variable \<open>'e\<close>: only their identity matters. A JavaScript
  value that may be \<open>undefined\<close> or \<open>null\<close> is an \<open>option\<close>; an uncaught
  \<open>TypeError\<close> (a property read on \<open>undefined\<close>) is the left summand of the result.
  Array indices and the numbers stored in \<open>activeIndex\<close> and \<open>gridPosition\<close> are
  \<open>int\<close>; coordinates of bounding boxes are \<open>real\<close>.
\<close>

datatype error = TypeError

subsection \<open>Token parsing (rebuild, lines 293-304)\<close>

text \<open>
  Strings are lists of 8-bit characters read as code units; \<open>\s\<close> of the regular
  expression matches tab, line feed, vertical tab, form feed, carriage return, space and
  the no-break space among them.
\<close>

definition isWhitespace :: "char \<Rightarrow> bool" where
  "isWhitespace c = (of_char c \<in> {9, 10, 11, 12, 13, 32, 160 :: nat})"

text \<open>\<open>s.split(/\s+/)\<close>: the pieces between maximal runs of whitespace, empty pieces kept.\<close>

function split_ws :: "string \<Rightarrow> string list" where
  "split_ws [] = [[]]"
| "split_ws (c # cs) =
     (if isWhitespace c then [] # split_ws (dropWhile isWhitespace cs)
      else (case split_ws cs of [] \<Rightarrow> [[c]] | p # ps \<Rightarrow> (c # p) # ps))"
  by pat_completeness auto
termination
  by (relation "measure length") (auto simp: length_dropWhile_le less_Suc_eq_le)

text \<open>\<open>(container.getAttribute('focusgroup') || '').split(/\s+/).filter(Boolean)\<close>\<close>

definition tokenize :: "string option \<Rightarrow> string list" where
  "tokenize a = filter (\<lambda>t. t \<noteq> []) (split_ws (case a of None \<Rightarrow> [] | Some s \<Rightarrow> s))"

record TokenSet =
  behavior :: string
  wrap :: bool
  inline :: bool
  block :: bool
  memory :: bool
  grid :: bool
  shadowInclusive :: bool
  rowWrap :: bool
  colWrap :: bool
  rowFlow :: bool
  colFlow :: bool

text \<open>
  \<open>(tokens[0] as BehaviorToken) || 'unknown'\<close>: the cast is erased at run time, so the
  stored value is the first token whenever there is one (a token is never the empty
  string, the only falsy string).
\<close>

definition parseTokens :: "string option \<Rightarrow> TokenSet" where
  "parseTokens a =
     (let tokens = tokenize a in
      \<lparr> behavior = (case tokens of [] \<Rightarrow> ''unknown'' | t # _ \<Rightarrow> t),
        wrap = (''wrap'' \<in> set tokens),
        inline = (''inline'' \<in> set tokens),
        block = (''block'' \<in> set tokens),
        memory = (''no-memory'' \<notin> set tokens),
        grid = (''grid'' \<in> set tokens),
        shadowInclusive = (''shadow-inclusive'' \<in> set tokens),
        rowWrap = (''row-wrap'' \<in> set tokens),
        colWrap = (''col-wrap'' \<in> set tokens),
        rowFlow = (''row-flow'' \<in> set tokens),
        colFlow = (''col-flow'' \<in> set tokens) \<rparr>)"

definition knownBehaviors :: "string list" where
  "knownBehaviors =
     [''toolbar'', ''tablist'', ''radiogroup'', ''listbox'', ''menu'', ''menubar'', ''grid'', ''none'']"

subsection \<open>JavaScript array helpers\<close>

text \<open>\<open>xs.indexOf(x)\<close>: the first index holding \<open>x\<close>, or \<open>-1\<close>.\<close>

fun indexOf :: "'a list \<Rightarrow> 'a \<Rightarrow> int" where
  "indexOf [] x = -1"
| "indexOf (y # ys) x =
     (if y = x then 0 else (let i = indexOf ys x in if i < 0 then -1 else i + 1))"

text \<open>\<open>xs[i]\<close>: \<open>undefined\<close> outside the array.\<close>

definition nthOpt :: "'a list \<Rightarrow> int \<Rightarrow> 'a option" where
  "nthOpt xs i = (if 0 \<le> i \<and> i < int (length xs) then Some (xs ! nat i) else None)"

subsection \<open>Data model (lines 17-63, 121-128)\<close>

record 'e GroupState =
  element :: 'e
  tokens :: "TokenSet option"
  items :: "'e list option"
  gridItems :: "'e list list option"
  activeIndex :: "int option"
  gridPosition :: "(int \<times> int) option"
  memoryRef :: "'e option"
  rebuildScheduled :: bool

record OriginalAttributes =
  tabindex :: "string option"
  role :: "string option"

text \<open>
  The part of the document the engine writes (the two attributes), the snapshot map
  \<open>originalAttributes\<close>, and the calls it makes outward: \<open>el.focus()\<close> and
  \<open>dispatchEvent\<close> are recorded in the order made.
\<close>

record 'e page =
  tabindexAttr :: "'e \<Rightarrow> string option"
  roleAttr :: "'e \<Rightarrow> string option"
  originalAttributes :: "'e \<Rightarrow> OriginalAttributes option"
  focusRequests :: "'e list"
  dispatched :: "('e \<times> string) list"

text \<open>
  The element tree: an element, its child elements in tree order, and the children of its
  open shadow root when it hosts one. Text nodes are left out (the walker shows elements
  only).
\<close>

datatype 'e dom = Element 'e "'e dom list" "'e dom list option"

text \<open>
  What the engine reads from the platform and never writes: element kinds, the inputs of
  \<open>isFocusable\<close>, the \<open>focusgroup\<close> attribute, the tree below an element and the chain
  of its shadow-including ancestors (nearest first), bounding boxes, computed direction
  and writing mode, and whether the target of a weak reference has been collected.
\<close>

record 'e platform =
  isHTMLElement :: "'e \<Rightarrow> bool"
  blocked :: "'e \<Rightarrow> bool"
  offsetParentNull :: "'e \<Rightarrow> bool"
  styleHidden :: "'e \<Rightarrow> bool"
  interactive :: "'e \<Rightarrow> bool"
  isTextInput :: "'e \<Rightarrow> bool"
  tagName :: "'e \<Rightarrow> string"
  focusgroupAttr :: "'e \<Rightarrow> string option"
  childElements :: "'e \<Rightarrow> 'e dom list"
  ancestors :: "'e \<Rightarrow> 'e list"
  rectTop :: "'e \<Rightarrow> real"
  rectLeft :: "'e \<Rightarrow> real"
  rectHeight :: "'e \<Rightarrow> real"
  isRTL :: "'e \<Rightarrow> bool"
  isVertical :: "'e \<Rightarrow> bool"
  collected :: "'e \<Rightarrow> bool"

subsection \<open>Utility functions (lines 83-115)\<close>

definition isDigit :: "char \<Rightarrow> bool" where
  "isDigit c = (48 \<le> (of_char c :: nat) \<and> (of_char c :: nat) \<le> 57)"

text \<open>
  \<open>parseInt(s, 10) >= 0\<close>: leading whitespace and one sign are skipped, then the digits
  are read; no digit gives NaN (and \<open>NaN >= 0\<close> is false); a minus sign gives a negative
  number unless every digit is zero.
\<close>

definition parseIntNonNegative :: "string \<Rightarrow> bool" where
  "parseIntNonNegative s =
     (let t = dropWhile isWhitespace s;
          neg = (case t of [] \<Rightarrow> False | c # _ \<Rightarrow> c = CHR ''-'');
          r = (case t of [] \<Rightarrow> [] | c # cs \<Rightarrow> if c = CHR ''-'' \<or> c = CHR ''+'' then cs else t);
          ds = takeWhile isDigit r
      in ds \<noteq> [] \<and> (if neg then list_all (\<lambda>d. d = CHR ''0'') ds else True))"

text \<open>
  \<open>blocked\<close> is \<open>disabled || hidden || closest('[inert]')\<close>, \<open>styleHidden\<close> is
  \<open>display === 'none' || visibility === 'hidden'\<close>, \<open>interactive\<close> is the selector
  match of line 91. The \<open>tabindex\<close> attribute is read from the page, where the engine
  itself writes it.
\<close>

definition isFocusable :: "'e platform \<Rightarrow> ('e \<Rightarrow> string option) \<Rightarrow> 'e \<Rightarrow> bool" where
  "isFocusable pf tab el =
     (if \<not> isHTMLElement pf el then False
      else if blocked pf el then False
      else if offsetParentNull pf el then False
      else if styleHidden pf el then False
      else if interactive pf el then True
      else (case tab el of None \<Rightarrow> False | Some t \<Rightarrow> parseIntNonNegative t))"

text \<open>
  \<open>ROLE_MAP[behavior]\<close>: the container role and the child role. The lookup is a
  property read on an object literal, so the names inherited from \<open>Object.prototype\<close>
  are found as well, as values whose \<open>container\<close> and \<open>child\<close> are \<open>undefined\<close>.
\<close>

definition objectPrototypeNames :: "string list" where
  "objectPrototypeNames =
     [''constructor'', ''__proto__'', ''hasOwnProperty'', ''isPrototypeOf'',
      ''propertyIsEnumerable'', ''toLocaleString'', ''toString'', ''valueOf'',
      ''__defineGetter__'', ''__defineSetter__'', ''__lookupGetter__'', ''__lookupSetter__'']"

definition ROLE_MAP :: "string \<Rightarrow> (string option \<times> string option) option" where
  "ROLE_MAP b =
     (if b = ''toolbar'' then Some (Some ''toolbar'', None)
      else if b = ''tablist'' then Some (Some ''tablist'', Some ''tab'')
      else if b = ''radiogroup'' then Some (Some ''radiogroup'', Some ''radio'')
      else if b = ''listbox'' then Some (Some ''listbox'', Some ''option'')
      else if b = ''menu'' then Some (Some ''menu'', Some ''menuitem'')
      else if b = ''menubar'' then Some (Some ''menubar'', Some ''menuitem'')
      else if b = ''grid'' then Some (Some ''grid'', Some ''gridcell'')
      else if b \<in> set objectPrototypeNames then Some (None, None)
      else None)"

definition isGenericElement :: "'e platform \<Rightarrow> 'e \<Rightarrow> bool" where
  "isGenericElement pf el = (tagName pf el \<in> set [''DIV'', ''SPAN''])"

subsection \<open>Attribute management (lines 485-532)\<close>

text \<open>
  \<open>state.items.forEach((item, index) => item.setAttribute('tabindex', ...))\<close>, from
  index \<open>i\<close> on. The comparison \<open>index === state.activeIndex\<close> is false when
  \<open>activeIndex\<close> is \<open>undefined\<close>.
\<close>

fun rove :: "int \<Rightarrow> int option \<Rightarrow> 'e list \<Rightarrow> ('e \<Rightarrow> string option) \<Rightarrow> 'e \<Rightarrow> string option" where
  "rove i a [] tab = tab"
| "rove i a (item # rest) tab =
     rove (i + 1) a rest (tab(item := Some (if Some i = a then ''0'' else ''-1'')))"

definition applyRovingTabindex :: "'e list \<Rightarrow> int option \<Rightarrow> 'e page \<Rightarrow> 'e page" where
  "applyRovingTabindex xs a p = p\<lparr>tabindexAttr := rove 0 a xs (tabindexAttr p)\<rparr>"

definition saveOriginalAttributes :: "'e \<Rightarrow> 'e page \<Rightarrow> 'e page" where
  "saveOriginalAttributes el p =
     (if originalAttributes p el = None
      then p\<lparr>originalAttributes := (originalAttributes p)
               (el := Some \<lparr>tabindex = tabindexAttr p el, role = roleAttr p el\<rparr>)\<rparr>
      else p)"

definition restoreOriginalAttributes :: "bool \<Rightarrow> 'e \<Rightarrow> 'e page \<Rightarrow> 'e page" where
  "restoreOriginalAttributes autoRoles el p =
     (case originalAttributes p el of
        None \<Rightarrow> p
      | Some original \<Rightarrow>
          p\<lparr>tabindexAttr := (tabindexAttr p)(el := tabindex original),
            roleAttr := (if autoRoles then (roleAttr p)(el := role original) else roleAttr p),
            originalAttributes := (originalAttributes p)(el := None)\<rparr>)"

text \<open>\<open>setAttribute('role', v)\<close> with \<open>v\<close> undefined stores the string \<open>undefined\<close>.\<close>

definition roleString :: "string option \<Rightarrow> string" where
  "roleString v = (case v of None \<Rightarrow> ''undefined'' | Some r \<Rightarrow> r)"

definition hasOriginalRole :: "'e page \<Rightarrow> 'e \<Rightarrow> bool" where
  "hasOriginalRole p el =
     (case originalAttributes p el of
        None \<Rightarrow> False
      | Some original \<Rightarrow> (case role original of None \<Rightarrow> False | Some r \<Rightarrow> r \<noteq> []))"

definition applyAriaRoles :: "'e platform \<Rightarrow> 'e \<Rightarrow> string \<Rightarrow> 'e list \<Rightarrow> 'e page \<Rightarrow> 'e page" where
  "applyAriaRoles pf container b xs p =
     (case ROLE_MAP b of
        None \<Rightarrow> p
      | Some (containerRole, childRole) \<Rightarrow>
          (let p1 = saveOriginalAttributes container p;
               p2 = (if isGenericElement pf container \<and> \<not> hasOriginalRole p1 container
                     then p1\<lparr>roleAttr := (roleAttr p1)(container := Some (roleString containerRole))\<rparr>
                     else p1)
           in case childRole of
                None \<Rightarrow> p2
              | Some r \<Rightarrow>
                  fold (\<lambda>item q. if \<not> hasOriginalRole q item
                                  then q\<lparr>roleAttr := (roleAttr q)(item := Some r)\<rparr> else q)
                    xs p2))"

subsection \<open>Helpers (lines 535-551)\<close>

text \<open>
  Both loops climb from a start element until \<open>null\<close> or \<open>stopAt\<close>. They are given
  the chain of elements the loop variable \<open>current\<close> runs through, in order, and return
  the first one that passes the test. \<open>has\<close> is \<open>groups.has\<close>.
\<close>

definition findGroupForElement :: "'e platform \<Rightarrow> ('e \<Rightarrow> bool) \<Rightarrow> 'e list \<Rightarrow> 'e option" where
  "findGroupForElement pf has chain = find (\<lambda>current. isHTMLElement pf current \<and> has current) chain"

definition findAncestorWithAttr :: "'e platform \<Rightarrow> string \<Rightarrow> 'e list \<Rightarrow> 'e option" where
  "findAncestorWithAttr pf v chain = find (\<lambda>current. focusgroupAttr pf current = Some v) chain"

subsection \<open>Item discovery (lines 336-359)\<close>

text \<open>
  \<open>discoverItems(root, shadowInclusive)\<close> drives a \<open>TreeWalker\<close> over the elements
  below \<open>root\<close> with the filter \<open>acceptNode\<close>. By the DOM standard, \<open>nextNode()\<close>
  visits the nodes below the root in tree order; \<open>FILTER_REJECT\<close> skips the node with its
  whole subtree, \<open>FILTER_SKIP\<close> skips the node alone, and \<open>FILTER_ACCEPT\<close> returns the
  node, after which the next call goes on with the children of the returned node. The
  root itself is never filtered, so the test \<open>node === root\<close> never holds.

  For the node being filtered, \<open>anc\<close> is the chain \<open>parentElement\<close>,
  \<open>parentElement.parentElement\<close>, ... inside the tree being walked (it ends below the
  root, or at the top of a shadow tree), and \<open>full\<close> is the whole chain of
  shadow-including ancestors, from the parent (or the host, for the top of a shadow
  tree) upwards. \<open>findAncestorWithAttr(node, 'focusgroup', 'none', root)\<close> runs through
  \<open>anc\<close>. \<open>findGroupForElement(node.parentElement, root)\<close> runs through \<open>anc\<close> too
  when \<open>root\<close> is an element. When \<open>root\<close> is a shadow root, \<open>current\<close> never equals
  it: the loop does not start for a child of the shadow root (its \<open>parentElement\<close> is
  null), and for a deeper node it leaves the shadow tree through the host and runs
  through \<open>full\<close>.

  The items of a shadow tree are pushed while its host is filtered, so they precede
  everything the walker returns afterwards.
\<close>

definition groupChain :: "bool \<Rightarrow> 'e list \<Rightarrow> 'e list \<Rightarrow> 'e list" where
  "groupChain inShadow anc full = (if inShadow then (if anc = [] then [] else full) else anc)"

fun discoverNode ::
    "'e platform \<Rightarrow> ('e \<Rightarrow> string option) \<Rightarrow> ('e \<Rightarrow> bool) \<Rightarrow> bool \<Rightarrow> bool \<Rightarrow> 'e list \<Rightarrow> 'e list
      \<Rightarrow> 'e dom \<Rightarrow> 'e list"
  and discoverNodes ::
    "'e platform \<Rightarrow> ('e \<Rightarrow> string option) \<Rightarrow> ('e \<Rightarrow> bool) \<Rightarrow> bool \<Rightarrow> bool \<Rightarrow> 'e list \<Rightarrow> 'e list
      \<Rightarrow> 'e dom list \<Rightarrow> 'e list"
where
  "discoverNode pf tab has shadowIncl inShadow anc full (Element node children shadow) =
     (if \<not> isHTMLElement pf node
      then discoverNodes pf tab has shadowIncl inShadow (node # anc) (node # full) children
      else if findGroupForElement pf has (groupChain inShadow anc full) \<noteq> None then []
      else if findAncestorWithAttr pf ''none'' anc \<noteq> None then []
      else if isFocusable pf tab node
      then node # discoverNodes pf tab has shadowIncl inShadow (node # anc) (node # full) children
      else (if shadowIncl
            then (case shadow of
                    None \<Rightarrow> []
                  | Some inner \<Rightarrow> discoverNodes pf tab has shadowIncl True [] (node # full) inner)
            else [])
           @ discoverNodes pf tab has shadowIncl inShadow (node # anc) (node # full) children)"
| "discoverNodes pf tab has shadowIncl inShadow anc full [] = []"
| "discoverNodes pf tab has shadowIncl inShadow anc full (c # cs) =
     discoverNode pf tab has shadowIncl inShadow anc full c
     @ discoverNodes pf tab has shadowIncl inShadow anc full cs"

definition discoverItems ::
    "'e platform \<Rightarrow> ('e \<Rightarrow> string option) \<Rightarrow> ('e \<Rightarrow> bool) \<Rightarrow> 'e \<Rightarrow> bool \<Rightarrow> 'e list" where
  "discoverItems pf tab has container shadowIncl =
     discoverNodes pf tab has shadowIncl False [] (container # ancestors pf container)
       (childElements pf container)"

subsection \<open>Grid builder (lines 361-388)\<close>

text \<open>
  \<open>itemRects.sort((a, b) => a.rect.top - b.rect.top || a.rect.left - b.rect.left)\<close>:
  the sort is stable; \<open>before\<close> says that the comparator is not positive.
\<close>

definition before :: "'e platform \<Rightarrow> 'e \<Rightarrow> 'e \<Rightarrow> bool" where
  "before pf a b =
     (rectTop pf a < rectTop pf b \<or> (rectTop pf a = rectTop pf b \<and> rectLeft pf a \<le> rectLeft pf b))"

fun insertSorted :: "'e platform \<Rightarrow> 'e \<Rightarrow> 'e list \<Rightarrow> 'e list" where
  "insertSorted pf x [] = [x]"
| "insertSorted pf x (y # ys) = (if before pf x y then x # y # ys else y # insertSorted pf x ys)"

definition sortByRect :: "'e platform \<Rightarrow> 'e list \<Rightarrow> 'e list" where
  "sortByRect pf xs = foldr (insertSorted pf) xs []"

text \<open>
  The loop of lines 369-375 from index \<open>i\<close> on: \<open>prev\<close> is \<open>itemRects[i-1]\<close>,
  \<open>currentRow\<close> the row being filled; the last row is pushed after the loop.
\<close>

fun splitRows :: "'e platform \<Rightarrow> 'e \<Rightarrow> 'e list \<Rightarrow> 'e list \<Rightarrow> 'e list list" where
  "splitRows pf prev currentRow [] = [currentRow]"
| "splitRows pf prev currentRow (x # xs) =
     (if \<bar>rectTop pf x - rectTop pf prev\<bar> > rectHeight pf prev / 2
      then currentRow # splitRows pf x [x] xs
      else splitRows pf x (currentRow @ [x]) xs)"

definition gridRowsOf :: "'e platform \<Rightarrow> 'e list \<Rightarrow> 'e list list" where
  "gridRowsOf pf xs = (case sortByRect pf xs of [] \<Rightarrow> [] | first # rest \<Rightarrow> splitRows pf first [first] rest)"

text \<open>The loop of lines 382-385 from row \<open>r\<close> on, and the fall-through of line 387.\<close>

fun locateInRows :: "'e list list \<Rightarrow> int \<Rightarrow> 'e \<Rightarrow> int \<times> int" where
  "locateInRows [] r activeEl = (-1, -1)"
| "locateInRows (row # rows) r activeEl =
     (let c = indexOf row activeEl in if c > -1 then (r, c) else locateInRows rows (r + 1) activeEl)"

text \<open>\<open>buildGrid\<close> is called by rebuild, after \<open>items\<close> has been assigned: \<open>xs\<close>.\<close>

definition buildGrid :: "'e platform \<Rightarrow> 'e list \<Rightarrow> 'e GroupState \<Rightarrow> 'e GroupState" where
  "buildGrid pf xs st =
     (if xs = [] then st\<lparr>gridItems := Some []\<rparr>
      else
        (let rows = gridRowsOf pf xs;
             activeEl = (case activeIndex st of
                           None \<Rightarrow> None
                         | Some a \<Rightarrow> if a > -1 then nthOpt xs a else None)
         in case activeEl of
              None \<Rightarrow> st\<lparr>gridItems := Some rows, gridPosition := Some (-1, -1)\<rparr>
            | Some el \<Rightarrow> st\<lparr>gridItems := Some rows, gridPosition := Some (locateInRows rows 0 el)\<rparr>))"

subsection \<open>Navigation (lines 392-481)\<close>

text \<open>
  The two navigators are only ever called with one of the six navigation keys: the key
  handler filters on \<open>navKeys\<close> and the programmatic handle passes literals.
\<close>

datatype key = ArrowUp | ArrowDown | ArrowLeft | ArrowRight | Home | End

text \<open>
  \<open>focusItemByIndex(state, index)\<close>. With \<open>items\<close> undefined the third test of the
  guard throws, unless one of the first two has already returned.
\<close>

definition focusItemByIndex ::
    "int \<Rightarrow> 'e GroupState \<Rightarrow> 'e page \<Rightarrow> error + ('e GroupState \<times> 'e page)" where
  "focusItemByIndex index st p =
     (if Some index = activeIndex st \<or> index < 0 then Inr (st, p)
      else case items st of
             None \<Rightarrow> Inl TypeError
           | Some xs \<Rightarrow>
               if index \<ge> int (length xs) then Inr (st, p)
               else Inr (st\<lparr>activeIndex := Some index\<rparr>,
                         (applyRovingTabindex xs (Some index) p)
                           \<lparr>focusRequests := focusRequests p @ [xs ! nat index]\<rparr>))"

text \<open>
  Lines 396-425 of \<open>navigateLinear\<close>: the index handed to \<open>focusItemByIndex\<close>.
  The outer \<open>None\<close> is the early return of the axis test (line 416). The inner
  \<open>None\<close> is NaN: with \<open>activeIndex\<close> undefined an arrow key adds 1 to
  \<open>undefined\<close>, and NaN passes the wrap and clamp steps unchanged.
\<close>

definition linearTarget ::
    "'e platform \<Rightarrow> key \<Rightarrow> 'e \<Rightarrow> TokenSet \<Rightarrow> int option \<Rightarrow> int \<Rightarrow> int option option" where
  "linearTarget pf key container tk active lastIndex =
     (let rtl = isRTL pf container;
          vertical = isVertical pf container;
          horizontal = (key = ArrowRight \<or> key = ArrowLeft);
          forward = (case key of ArrowRight \<Rightarrow> \<not> rtl | ArrowLeft \<Rightarrow> rtl
                     | ArrowDown \<Rightarrow> \<not> vertical | ArrowUp \<Rightarrow> vertical | _ \<Rightarrow> False);
          arrow = (key \<noteq> Home \<and> key \<noteq> End)
      in if arrow \<and> ((inline tk \<and> \<not> block tk \<and> \<not> horizontal)
                      \<or> (block tk \<and> \<not> inline tk \<and> horizontal))
         then None
         else Some
           (case (case key of
                    Home \<Rightarrow> Some 0
                  | End \<Rightarrow> Some lastIndex
                  | _ \<Rightarrow> map_option (\<lambda>n. n + (if forward then 1 else -1)) active) of
              None \<Rightarrow> None
            | Some n \<Rightarrow>
                Some (if wrap tk
                      then (let n1 = (if n < 0 then lastIndex else n)
                            in if n1 > lastIndex then 0 else n1)
                      else max 0 (min n lastIndex))))"

text \<open>
  \<open>navigateLinear(state, key)\<close>. NaN passes every test of the guard of
  \<open>focusItemByIndex\<close>, and \<open>state.items[NaN].focus()\<close> throws.
\<close>

definition navigateLinear ::
    "'e platform \<Rightarrow> key \<Rightarrow> 'e GroupState \<Rightarrow> 'e page \<Rightarrow> error + ('e GroupState \<times> 'e page)" where
  "navigateLinear pf key st p =
     (if activeIndex st = Some (-1) then Inr (st, p)
      else case items st of
        None \<Rightarrow> Inl TypeError
      | Some xs \<Rightarrow>
         (case tokens st of
            None \<Rightarrow> Inl TypeError
          | Some tk \<Rightarrow>
             (case linearTarget pf key (element st) tk (activeIndex st) (int (length xs) - 1) of
                None \<Rightarrow> Inr (st, p)
              | Some None \<Rightarrow> Inl TypeError
              | Some (Some nextIndex) \<Rightarrow> focusItemByIndex nextIndex st p)))"

text \<open>The \<open>switch\<close> of lines 438-445; \<open>End\<close> reads \<open>gridItems[row].length\<close>.\<close>

definition gridKey :: "key \<Rightarrow> 'e list list \<Rightarrow> int \<times> int \<Rightarrow> error + (int \<times> int)" where
  "gridKey key g rc =
     (case rc of (row, col) \<Rightarrow>
        (case key of
           ArrowUp \<Rightarrow> Inr (row - 1, col)
         | ArrowDown \<Rightarrow> Inr (row + 1, col)
         | ArrowLeft \<Rightarrow> Inr (row, col - 1)
         | ArrowRight \<Rightarrow> Inr (row, col + 1)
         | Home \<Rightarrow> Inr (row, 0)
         | End \<Rightarrow> (case nthOpt g row of
                     None \<Rightarrow> Inl TypeError
                   | Some r \<Rightarrow> Inr (row, int (length r) - 1))))"

text \<open>
  Lines 447-457. \<open>maxCol\<close> is \<open>(gridItems[row]?.length ?? 0) - 1\<close>, for the row after
  the key. Under flow to the left, \<open>gridItems[Math.max(0, row)]?.length - 1 || 0\<close> is
  0 when the row is missing (NaN) and when the difference is 0.
\<close>

definition colOverflow :: "bool \<Rightarrow> bool \<Rightarrow> 'e list list \<Rightarrow> int \<times> int \<Rightarrow> int \<times> int" where
  "colOverflow flow wrp g rc =
     (case rc of (row, col) \<Rightarrow>
        (let maxCol = (case nthOpt g row of None \<Rightarrow> 0 | Some r \<Rightarrow> int (length r)) - 1
         in if col < 0
            then (if flow
                  then (row - 1,
                        (case nthOpt g (max 0 (row - 1)) of
                           None \<Rightarrow> 0
                         | Some r \<Rightarrow> if int (length r) - 1 = 0 then 0 else int (length r) - 1))
                  else if wrp then (row, maxCol)
                  else (row, 0))
            else if col > maxCol
            then (if flow then (row + 1, 0)
                  else if wrp then (row, 0)
                  else (row, maxCol))
            else (row, col)))"

text \<open>Lines 459-463.\<close>

definition rowOverflow :: "bool \<Rightarrow> 'e list list \<Rightarrow> int \<times> int \<Rightarrow> int \<times> int" where
  "rowOverflow flowOrWrap g rc =
     (case rc of (row, col) \<Rightarrow>
        (let maxRow = int (length g) - 1
         in if row < 0 then (if flowOrWrap then (maxRow, col) else (0, col))
            else if row > maxRow then (if flowOrWrap then (0, col) else (maxRow, col))
            else (row, col)))"

text \<open>Lines 465-466; \<open>gridItems[row].length\<close> throws when there is no row at all.\<close>

definition clampPosition :: "'e list list \<Rightarrow> int \<times> int \<Rightarrow> error + (int \<times> int)" where
  "clampPosition g rc =
     (case rc of (row, col) \<Rightarrow>
        (let row' = max 0 (min row (int (length g) - 1))
         in case nthOpt g row' of
              None \<Rightarrow> Inl TypeError
            | Some r \<Rightarrow> Inr (row', max 0 (min col (int (length r) - 1)))))"

text \<open>
  The position the navigator settles on, lines 433-466: \<open>wrap\<close> switches on both
  \<open>rowWrap\<close> and \<open>colWrap\<close>.
\<close>

definition gridTarget :: "TokenSet \<Rightarrow> key \<Rightarrow> 'e list list \<Rightarrow> int \<times> int \<Rightarrow> error + (int \<times> int)" where
  "gridTarget tk key g rc =
     (case gridKey key g rc of
        Inl e \<Rightarrow> Inl e
      | Inr rc1 \<Rightarrow>
          clampPosition g
            (rowOverflow (rowFlow tk \<or> (rowWrap tk \<or> wrap tk)) g
               (colOverflow (colFlow tk) (colWrap tk \<or> wrap tk) g rc1)))"

text \<open>
  \<open>navigateGrid(state, key)\<close>. \<open>items.indexOf(undefined)\<close> is \<open>-1\<close>: a position
  with no element is a no-op.
\<close>

definition navigateGrid ::
    "key \<Rightarrow> 'e GroupState \<Rightarrow> 'e page \<Rightarrow> error + ('e GroupState \<times> 'e page)" where
  "navigateGrid key st p =
     (case gridPosition st of
        None \<Rightarrow> Inl TypeError
      | Some (row0, col0) \<Rightarrow>
          if row0 = -1 \<or> col0 = -1 then Inr (st, p)
          else
            (case tokens st of
               None \<Rightarrow> Inl TypeError
             | Some tk \<Rightarrow>
                (case gridItems st of
                   None \<Rightarrow> Inl TypeError
                 | Some g \<Rightarrow>
                    (case gridTarget tk key g (row0, col0) of
                       Inl e \<Rightarrow> Inl e
                     | Inr (row, col) \<Rightarrow>
                        (case items st of
                           None \<Rightarrow> Inl TypeError
                         | Some xs \<Rightarrow>
                            (case nthOpt g row of
                               None \<Rightarrow> Inl TypeError
                             | Some r \<Rightarrow>
                                (case nthOpt r col of
                                   None \<Rightarrow> Inr (st, p)
                                 | Some el \<Rightarrow>
                                    (let newIndex = indexOf xs el
                                     in if newIndex > -1
                                        then focusItemByIndex newIndex
                                               (st\<lparr>gridPosition := Some (row, col)\<rparr>) p
                                        else Inr (st, p)))))))))"

subsection \<open>Focus-in handling for a group (lines 208-227)\<close>

text \<open>\<open>state.memory?.deref()\<close>: nothing when no reference is stored or its target is gone.\<close>

definition deref :: "'e platform \<Rightarrow> 'e option \<Rightarrow> 'e option" where
  "deref pf m = (case m of None \<Rightarrow> None | Some el \<Rightarrow> if collected pf el then None else Some el)"

text \<open>
  The element the handler refocuses, if any (lines 210-218): the test reads
  \<open>state.tokens.memory\<close> first.
\<close>

definition tabRestore ::
    "'e platform \<Rightarrow> 'e \<Rightarrow> bool \<Rightarrow> 'e GroupState \<Rightarrow> 'e list \<Rightarrow> error + 'e option" where
  "tabRestore pf target tabbing st xs =
     (if tabbing
      then (case tokens st of
              None \<Rightarrow> Inl TypeError
            | Some tk \<Rightarrow>
                (case deref pf (memoryRef st) of
                   None \<Rightarrow> Inr None
                 | Some memoryEl \<Rightarrow>
                     if memory tk \<and> memoryEl \<in> set xs \<and> target \<noteq> memoryEl
                     then Inr (Some memoryEl) else Inr None))
      else Inr None)"

text \<open>
  The body of \<open>onGlobalFocusIn\<close> once the state of the target's group is found; the
  first component of the result is the new value of \<open>isTabbing\<close>.
\<close>

definition focusInGroup ::
    "'e platform \<Rightarrow> 'e \<Rightarrow> bool \<Rightarrow> 'e GroupState \<Rightarrow> 'e page
      \<Rightarrow> error + (bool \<times> 'e GroupState \<times> 'e page)" where
  "focusInGroup pf target tabbing st p =
     (case items st of
        None \<Rightarrow> Inl TypeError
      | Some xs \<Rightarrow>
         (let itemIndex = indexOf xs target
          in case tabRestore pf target tabbing st xs of
               Inl e \<Rightarrow> Inl e
             | Inr (Some memoryEl) \<Rightarrow>
                 Inr (False, st, p\<lparr>focusRequests := focusRequests p @ [memoryEl]\<rparr>)
             | Inr None \<Rightarrow>
                 if itemIndex > -1
                 then (let st1 = (if activeIndex st \<noteq> Some itemIndex
                                  then st\<lparr>activeIndex := Some itemIndex\<rparr> else st);
                           p1 = (if activeIndex st \<noteq> Some itemIndex
                                 then applyRovingTabindex xs (Some itemIndex) p else p)
                       in Inr (False, st1\<lparr>memoryRef := Some target\<rparr>,
                               p1\<lparr>dispatched := dispatched p1 @ [(element st, ''change'')]\<rparr>))
                 else Inr (False, st, p)))"

subsection \<open>Rebuild (lines 289-334)\<close>

text \<open>\<open>(state.items || [])\<close>\<close>

definition itemsOrEmpty :: "'e GroupState \<Rightarrow> 'e list" where
  "itemsOrEmpty st = (case items st of None \<Rightarrow> [] | Some xs \<Rightarrow> xs)"

text \<open>
  \<open>state.activeIndex > -1 ? state.items[state.activeIndex] : null\<close>: the comparison is
  false when \<open>activeIndex\<close> is undefined; the read throws when \<open>items\<close> is.
\<close>

definition oldActiveElement :: "'e GroupState \<Rightarrow> error + 'e option" where
  "oldActiveElement st =
     (case activeIndex st of
        None \<Rightarrow> Inr None
      | Some a \<Rightarrow>
          if a > -1
          then (case items st of None \<Rightarrow> Inl TypeError | Some old \<Rightarrow> Inr (nthOpt old a))
          else Inr None)"

text \<open>Lines 317-326: the old active element, else the remembered one, else the first.\<close>

definition chooseActive :: "'e platform \<Rightarrow> TokenSet \<Rightarrow> 'e option \<Rightarrow> 'e option \<Rightarrow> 'e list \<Rightarrow> int" where
  "chooseActive pf tk oldActive mem xs =
     (if (case oldActive of None \<Rightarrow> False | Some el \<Rightarrow> el \<in> set xs)
      then (case oldActive of None \<Rightarrow> -1 | Some el \<Rightarrow> indexOf xs el)
      else (case deref pf mem of
              None \<Rightarrow> (if length xs > 0 then 0 else -1)
            | Some memoryEl \<Rightarrow>
                if memory tk \<and> memoryEl \<in> set xs then indexOf xs memoryEl
                else (if length xs > 0 then 0 else -1)))"

text \<open>
  \<open>rebuild(state)\<close>; \<open>has\<close> is \<open>groups.has\<close> and \<open>withRoles\<close> the module variable
  \<open>autoRoles\<close>. The focusability test of the discovery reads the \<open>tabindex\<close> attributes
  as the restore of the old items has left them.
\<close>

definition rebuild ::
    "'e platform \<Rightarrow> ('e \<Rightarrow> bool) \<Rightarrow> bool \<Rightarrow> 'e GroupState \<Rightarrow> 'e page
      \<Rightarrow> error + ('e GroupState \<times> 'e page)" where
  "rebuild pf has withRoles st p =
     (let container = element st;
          tk = parseTokens (focusgroupAttr pf container);
          st1 = st\<lparr>tokens := Some tk\<rparr>
      in if behavior tk = ''none'' then Inr (st1\<lparr>items := Some []\<rparr>, p)
         else
           (case oldActiveElement st1 of
              Inl e \<Rightarrow> Inl e
            | Inr oldActive \<Rightarrow>
               (let p1 = fold (restoreOriginalAttributes withRoles) (itemsOrEmpty st1) p;
                    xs = discoverItems pf (tabindexAttr p1) has container (shadowInclusive tk);
                    p2 = fold saveOriginalAttributes xs p1;
                    st2 = st1\<lparr>items := Some xs,
                              activeIndex := Some (chooseActive pf tk oldActive (memoryRef st1) xs)\<rparr>;
                    st3 = (if grid tk then buildGrid pf xs st2 else st2);
                    p3 = applyRovingTabindex xs (activeIndex st3) p2;
                    p4 = (if withRoles then applyAriaRoles pf container (behavior tk) xs p3 else p3)
                in Inr (st3, p4\<lparr>dispatched := dispatched p4 @ [(container, ''rebuild'')]\<rparr>))))"

subsection \<open>Group management (lines 260-287) and the handlers\<close>

text \<open>
  State objects are shared by reference between the registry \<open>groups\<close>, the pending
  animation-frame callbacks and the programmatic handles, so they live in a store
  \<open>heap\<close> under numbers. \<open>frames\<close> is the queue of callbacks passed to
  \<open>requestAnimationFrame\<close> and not yet run, each closing over one state object.
\<close>

record 'e engine =
  groups :: "'e \<Rightarrow> nat option"
  heap :: "nat \<Rightarrow> 'e GroupState option"
  nextRef :: nat
  frames :: "nat list"
  isTabbing :: bool
  autoRoles :: bool
  doc :: "'e page"

text \<open>\<open>{ element: container, rebuildScheduled: false }\<close>\<close>

definition newState :: "'e \<Rightarrow> 'e GroupState" where
  "newState container =
     \<lparr>element = container, tokens = None, items = None, gridItems = None, activeIndex = None,
      gridPosition = None, memoryRef = None, rebuildScheduled = False\<rparr>"

definition scheduleRebuild :: "nat \<Rightarrow> 'e engine \<Rightarrow> 'e engine" where
  "scheduleRebuild ref eng =
     (case heap eng ref of
        None \<Rightarrow> eng
      | Some st \<Rightarrow>
          if rebuildScheduled st then eng
          else eng\<lparr>heap := (heap eng)(ref := Some (st\<lparr>rebuildScheduled := True\<rparr>)),
                   frames := frames eng @ [ref]\<rparr>)"

definition register :: "'e \<Rightarrow> 'e engine \<Rightarrow> 'e engine" where
  "register container eng =
     (case groups eng container of
        Some ref \<Rightarrow> scheduleRebuild ref eng
      | None \<Rightarrow>
          scheduleRebuild (nextRef eng)
            (eng\<lparr>heap := (heap eng)(nextRef eng := Some (newState container)),
                 groups := (groups eng)(container := Some (nextRef eng)),
                 nextRef := nextRef eng + 1\<rparr>))"

definition unregister :: "'e \<Rightarrow> 'e engine \<Rightarrow> 'e engine" where
  "unregister container eng =
     (case groups eng container of
        None \<Rightarrow> eng
      | Some ref \<Rightarrow>
          (case heap eng ref of
             None \<Rightarrow> eng
           | Some st \<Rightarrow>
               eng\<lparr>doc := restoreOriginalAttributes (autoRoles eng) container
                            (fold (restoreOriginalAttributes (autoRoles eng)) (itemsOrEmpty st) (doc eng)),
                   groups := (groups eng)(container := None)\<rparr>))"

text \<open>
  The callback of line 283, for the oldest pending request: the rebuild, then the flag is
  cleared. An exception in the rebuild would leave the flag set.
\<close>

definition runFrame :: "'e platform \<Rightarrow> 'e engine \<Rightarrow> error + 'e engine" where
  "runFrame pf eng =
     (case frames eng of
        [] \<Rightarrow> Inr eng
      | ref # rest \<Rightarrow>
          (case heap eng ref of
             None \<Rightarrow> Inr (eng\<lparr>frames := rest\<rparr>)
           | Some st \<Rightarrow>
               (case rebuild pf (\<lambda>c. groups eng c \<noteq> None) (autoRoles eng) st (doc eng) of
                  Inl e \<Rightarrow> Inl e
                | Inr (st', p') \<Rightarrow>
                    Inr (eng\<lparr>frames := rest,
                             heap := (heap eng)(ref := Some (st'\<lparr>rebuildScheduled := False\<rparr>)),
                             doc := p'\<rparr>))))"

text \<open>\<open>findGroupForElement(el)\<close> with no \<open>stopAt\<close>: from \<open>el\<close> itself upwards.\<close>

definition groupOf :: "'e platform \<Rightarrow> 'e engine \<Rightarrow> 'e \<Rightarrow> 'e option" where
  "groupOf pf eng el = findGroupForElement pf (\<lambda>c. groups eng c \<noteq> None) (el # ancestors pf el)"

text \<open>The dirty-group loop of \<open>onMutation\<close>, lines 252-255, for one group.\<close>

definition markDirty :: "'e \<Rightarrow> 'e engine \<Rightarrow> 'e engine" where
  "markDirty groupEl eng =
     (case groups eng groupEl of None \<Rightarrow> eng | Some ref \<Rightarrow> scheduleRebuild ref eng)"

definition navKey :: "string \<Rightarrow> key option" where
  "navKey k =
     (if k = ''ArrowUp'' then Some ArrowUp
      else if k = ''ArrowDown'' then Some ArrowDown
      else if k = ''ArrowLeft'' then Some ArrowLeft
      else if k = ''ArrowRight'' then Some ArrowRight
      else if k = ''Home'' then Some Home
      else if k = ''End'' then Some End
      else None)"

text \<open>Runs a state transformer on the state object \<open>ref\<close> and stores the result.\<close>

definition onState ::
    "nat \<Rightarrow> ('e GroupState \<Rightarrow> 'e page \<Rightarrow> error + ('e GroupState \<times> 'e page)) \<Rightarrow> 'e engine
      \<Rightarrow> error + 'e engine" where
  "onState ref f eng =
     (case heap eng ref of
        None \<Rightarrow> Inr eng
      | Some st \<Rightarrow>
          (case f st (doc eng) of
             Inl e \<Rightarrow> Inl e
           | Inr (st', p') \<Rightarrow> Inr (eng\<lparr>heap := (heap eng)(ref := Some st'), doc := p'\<rparr>)))"

text \<open>
  \<open>onGlobalKeyDown\<close>, lines 171-197; \<open>activeElement\<close> is \<open>document.activeElement\<close>.
  The timer that clears \<open>isTabbing\<close> after 50 ms is the event \<open>TabTimeout\<close> below.
\<close>

definition keyDispatch ::
    "'e platform \<Rightarrow> key \<Rightarrow> 'e GroupState \<Rightarrow> 'e page \<Rightarrow> error + ('e GroupState \<times> 'e page)" where
  "keyDispatch pf key st p =
     (case tokens st of
        None \<Rightarrow> Inl TypeError
      | Some tk \<Rightarrow> if grid tk then navigateGrid key st p else navigateLinear pf key st p)"

definition onGlobalKeyDown :: "'e platform \<Rightarrow> string \<Rightarrow> 'e option \<Rightarrow> 'e engine \<Rightarrow> error + 'e engine" where
  "onGlobalKeyDown pf k activeElement eng =
     (if k = ''Tab'' then Inr (eng\<lparr>isTabbing := True\<rparr>)
      else case activeElement of
        None \<Rightarrow> Inr eng
      | Some ae \<Rightarrow>
         if \<not> isHTMLElement pf ae then Inr eng
         else
          (case groupOf pf eng ae of
             None \<Rightarrow> Inr eng
           | Some container \<Rightarrow>
              (case groups eng container of
                 None \<Rightarrow> Inr eng
               | Some ref \<Rightarrow>
                  (case heap eng ref of
                     None \<Rightarrow> Inr eng
                   | Some st \<Rightarrow>
                      (case items st of
                         None \<Rightarrow> Inl TypeError
                       | Some xs \<Rightarrow>
                          if xs = [] then Inr eng
                          else if isTextInput pf ae then Inr eng
                          else (case navKey k of
                                  None \<Rightarrow> Inr eng
                                | Some key \<Rightarrow> onState ref (keyDispatch pf key) eng))))))"

text \<open>\<open>onGlobalFocusIn\<close>, lines 199-228.\<close>

definition onGlobalFocusIn :: "'e platform \<Rightarrow> 'e \<Rightarrow> 'e engine \<Rightarrow> error + 'e engine" where
  "onGlobalFocusIn pf target eng =
     (if \<not> isHTMLElement pf target then Inr eng
      else
       (case groupOf pf eng target of
          None \<Rightarrow> Inr eng
        | Some container \<Rightarrow>
           (case groups eng container of
              None \<Rightarrow> Inr eng
            | Some ref \<Rightarrow>
               (case heap eng ref of
                  None \<Rightarrow> Inr eng
                | Some st \<Rightarrow>
                   (case focusInGroup pf target (isTabbing eng) st (doc eng) of
                      Inl e \<Rightarrow> Inl e
                    | Inr (tabbing, st', p') \<Rightarrow>
                        Inr (eng\<lparr>isTabbing := tabbing,
                                 heap := (heap eng)(ref := Some st'),
                                 doc := p'\<rparr>))))))"

subsection \<open>The programmatic handle (lines 558-577)\<close>

datatype 'e apiCall = FocusItem 'e | FocusNext | FocusPrev | FocusFirst | FocusLast | Rebuild

text \<open>\<open>getGroupFor(el)\<close>: the state object the returned handle closes over.\<close>

definition getGroupFor :: "'e platform \<Rightarrow> 'e engine \<Rightarrow> 'e \<Rightarrow> nat option" where
  "getGroupFor pf eng el =
     (case groupOf pf eng el of None \<Rightarrow> None | Some container \<Rightarrow> groups eng container)"

definition focusItem :: "'e \<Rightarrow> 'e GroupState \<Rightarrow> 'e page \<Rightarrow> error + ('e GroupState \<times> 'e page)" where
  "focusItem item st p =
     (case items st of
        None \<Rightarrow> Inl TypeError
      | Some xs \<Rightarrow>
          (let index = indexOf xs item
           in if index > -1 then focusItemByIndex index st p else Inr (st, p)))"

definition apiOnState ::
    "'e platform \<Rightarrow> 'e apiCall \<Rightarrow> 'e GroupState \<Rightarrow> 'e page \<Rightarrow> error + ('e GroupState \<times> 'e page)" where
  "apiOnState pf c st p =
     (case c of
        FocusItem item \<Rightarrow> focusItem item st p
      | FocusNext \<Rightarrow> navigateLinear pf ArrowRight st p
      | FocusPrev \<Rightarrow> navigateLinear pf ArrowLeft st p
      | FocusFirst \<Rightarrow> navigateLinear pf Home st p
      | FocusLast \<Rightarrow> navigateLinear pf End st p
      | Rebuild \<Rightarrow> Inr (st, p))"

definition api :: "'e platform \<Rightarrow> nat \<Rightarrow> 'e apiCall \<Rightarrow> 'e engine \<Rightarrow> error + 'e engine" where
  "api pf ref c eng =
     (case c of
        Rebuild \<Rightarrow> Inr (scheduleRebuild ref eng)
      | _ \<Rightarrow> onState ref (apiOnState pf c) eng)"

subsection \<open>Events\<close>

text \<open>
  Everything runs to completion on one thread; the engine moves by one event at a time.
  Each event comes with the platform as it is when the event is handled. A run stops at
  the first uncaught exception. Every \<open>el.focus()\<close> in the source is the last
  statement of its handler, so the \<open>focusin\<close> event the platform dispatches inside
  that call is the event \<open>FocusIn\<close> delivered next.
\<close>

datatype 'e event =
    Register 'e
  | Unregister 'e
  | Dirty 'e
  | Frame
  | KeyDown string "'e option"
  | TabTimeout
  | FocusIn 'e
  | Api nat "'e apiCall"

definition step :: "'e platform \<Rightarrow> 'e event \<Rightarrow> 'e engine \<Rightarrow> error + 'e engine" where
  "step pf ev eng =
     (case ev of
        Register c \<Rightarrow> Inr (register c eng)
      | Unregister c \<Rightarrow> Inr (unregister c eng)
      | Dirty c \<Rightarrow> Inr (markDirty c eng)
      | Frame \<Rightarrow> runFrame pf eng
      | KeyDown k ae \<Rightarrow> onGlobalKeyDown pf k ae eng
      | TabTimeout \<Rightarrow> Inr (eng\<lparr>isTabbing := False\<rparr>)
      | FocusIn target \<Rightarrow> onGlobalFocusIn pf target eng
      | Api ref c \<Rightarrow> api pf ref c eng)"

fun run :: "('e platform \<times> 'e event) list \<Rightarrow> 'e engine \<Rightarrow> error + 'e engine" where
  "run [] eng = Inr eng"
| "run ((pf, ev) # rest) eng =
     (case step pf ev eng of Inl e \<Rightarrow> Inl e | Inr eng' \<Rightarrow> run rest eng')"

definition emptyPage :: "'e page" where
  "emptyPage =
     \<lparr>tabindexAttr = (\<lambda>_. None), roleAttr = (\<lambda>_. None), originalAttributes = (\<lambda>_. None),
      focusRequests = [], dispatched = []\<rparr>"

text \<open>The engine just installed, on a page with the given attributes.\<close>

definition initial :: "bool \<Rightarrow> 'e page \<Rightarrow> 'e engine" where
  "initial withRoles p =
     \<lparr>groups = (\<lambda>_. None), heap = (\<lambda>_. None), nextRef = 0, frames = [], isTabbing = False,
      autoRoles = withRoles, doc = p\<rparr>"

subsection \<open>Light-tree positions, and a concrete page for the examples\<close>

text \<open>
  Every element of a tree below a container, paired with the chain of its ancestors
  below the container (nearest first); shadow trees are not entered.
\<close>

fun lightNodes :: "'e list \<Rightarrow> 'e dom \<Rightarrow> ('e \<times> 'e list) list"
  and lightForest :: "'e list \<Rightarrow> 'e dom list \<Rightarrow> ('e \<times> 'e list) list"
where
  "lightNodes anc (Element node children shadow) = (node, anc) # lightForest (node # anc) children"
| "lightForest anc [] = []"
| "lightForest anc (c # cs) = lightNodes anc c @ lightForest anc cs"

text \<open>
  Elements are numbers. Element 0 is a \<open>div\<close>, the root of the given trees; every
  other element is visible, enabled and matches the selector of line 91. The
  \<open>focusgroup\<close> attributes are given as a table. Elements 1 to 3 lie on one visual row,
  the others on a second row below it.
\<close>

definition examplePlatform :: "(nat \<times> string) list \<Rightarrow> nat dom list \<Rightarrow> nat platform" where
  "examplePlatform attrs kids =
     \<lparr>isHTMLElement = (\<lambda>_. True), blocked = (\<lambda>_. False), offsetParentNull = (\<lambda>_. False),
      styleHidden = (\<lambda>_. False), interactive = (\<lambda>el. el \<noteq> 0), isTextInput = (\<lambda>_. False),
      tagName = (\<lambda>el. if el = 0 then ''DIV'' else ''BUTTON''),
      focusgroupAttr = map_of attrs,
      childElements = (\<lambda>el. if el = 0 then kids else []),
      ancestors = (\<lambda>el. case map_of (lightForest [] kids) el of
                          None \<Rightarrow> [] | Some anc \<Rightarrow> anc @ [0]),
      rectTop = (\<lambda>el. if el \<le> 3 then 0 else 20), rectLeft = (\<lambda>el. real el),
      rectHeight = (\<lambda>_. 10), isRTL = (\<lambda>_. False), isVertical = (\<lambda>_. False),
      collected = (\<lambda>_. False)\<rparr>"

text \<open>Three items below the container; with \<open>grid\<close> they form a grid of one row.\<close>

definition listPage :: "string \<Rightarrow> nat platform" where
  "listPage attr =
     examplePlatform [(0, attr)] [Element 1 [] None, Element 2 [] None, Element 3 [] None]"

definition gridPage :: "nat platform" where
  "gridPage = listPage ''grid''"

text \<open>A toolbar with one item, and the same container after its attribute became \<open>none\<close>.\<close>

definition toolbarPage :: "nat platform" where
  "toolbarPage = examplePlatform [(0, ''toolbar'')] [Element 1 [] None]"

definition optedOutPage :: "nat platform" where
  "optedOutPage = examplePlatform [(0, ''none'')] [Element 1 [] None]"

text \<open>A toolbar whose only child, element 1, carries \<open>focusgroup="none"\<close> and has a child 2.\<close>

definition nestedPage :: "(nat \<times> string) list \<Rightarrow> nat platform" where
  "nestedPage attrs = examplePlatform attrs [Element 1 [Element 2 [] None] None]"

text \<open>A grid state with two rows of three, the active item at the end of the first row.\<close>

definition twoRows :: "string \<Rightarrow> nat GroupState" where
  "twoRows attr =
     \<lparr>element = 0, tokens = Some (parseTokens (Some attr)),
      items = Some [1, 2, 3, 4, 5, 6], gridItems = Some [[1, 2, 3], [4, 5, 6]],
      activeIndex = Some 2, gridPosition = Some (0, 2), memoryRef = None,
      rebuildScheduled = False\<rparr>"



subsection \<open>The roving invariant and the operations on one group\<close>



text \<open>All elements of a tree, shadow trees included.\<close>

fun allNodes :: "'e dom \<Rightarrow> 'e list" and allForest :: "'e dom list \<Rightarrow> 'e list" where
  "allNodes (Element node children shadow) =
     node # (case shadow of None \<Rightarrow> [] | Some inner \<Rightarrow> allForest inner) @ allForest children"
| "allForest [] = []"
| "allForest (c # cs) = allNodes c @ allForest cs"






subsection \<open>The rebuild scheduler's invariant\<close>





section \<open>Theorems\<close>

subsection \<open>Token parsing\<close>

lemma tokenize_absent: "tokenize None = []" "tokenize (Some []) = []"
  by (simp_all add: tokenize_def)

lemma behavior_no_token: "tokenize a = [] \<Longrightarrow> behavior (parseTokens a) = ''unknown''"
  by (simp add: parseTokens_def)

lemma behavior_first_token: "tokenize a = t # ts \<Longrightarrow> behavior (parseTokens a) = t"
  by (simp add: parseTokens_def)

lemma tokenize_dialog: "tokenize (Some ''dialog wrap'') = [''dialog'', ''wrap'']"
  by (simp add: tokenize_def isWhitespace_def)

lemma tok_grid: "tokenize (Some ''grid'') = [''grid'']"
  by (simp add: tokenize_def isWhitespace_def)

lemma tok_toolbar: "tokenize (Some ''toolbar'') = [''toolbar'']"
  by (simp add: tokenize_def isWhitespace_def)

lemma tok_none: "tokenize (Some ''none'') = [''none'']"
  by (simp add: tokenize_def isWhitespace_def)

lemma tok_flow: "tokenize (Some ''grid col-flow'') = [''grid'', ''col-flow'']"
  by (simp add: tokenize_def isWhitespace_def)

text \<open>
  C4 (unknown-behaviour normalisation). The attribute value \<open>dialog wrap\<close> has the first
  token \<open>dialog\<close>, which is none of the eight behaviour names; the parser run by rebuild
  stores \<open>dialog\<close> itself as the behaviour, not \<open>unknown\<close>. Only a missing first token
  is replaced by \<open>unknown\<close>.
\<close>

theorem unrecognised_behavior_kept:
  "''dialog'' \<notin> set knownBehaviors
   \<and> behavior (parseTokens (Some ''dialog wrap'')) = ''dialog''
   \<and> behavior (parseTokens (Some ''dialog wrap'')) \<noteq> ''unknown''
   \<and> behavior (parseTokens None) = ''unknown''"
  by (simp add: behavior_first_token [OF tokenize_dialog] behavior_no_token tokenize_absent
      knownBehaviors_def)

subsection \<open>Array helpers\<close>

lemma indexOf_mem:
  "x \<in> set xs \<Longrightarrow>
     0 \<le> indexOf xs x \<and> indexOf xs x < int (length xs) \<and> xs ! nat (indexOf xs x) = x"
  by (induction xs) (auto simp: Let_def nat_add_distrib)


subsection \<open>Grid builder and grid navigator\<close>










lemma target_noflow:
  "\<not> colFlow tk \<Longrightarrow> \<not> colWrap tk \<Longrightarrow> \<not> wrap tk \<Longrightarrow>
     gridTarget tk ArrowRight [[a, b, c], [d, e, f]] (0, 2) = Inr (0, 2)"
  by (simp add: gridTarget_def gridKey_def colOverflow_def rowOverflow_def
        clampPosition_def nthOpt_def Let_def)

lemma target_flow:
  "colFlow tk \<Longrightarrow> gridTarget tk ArrowRight [[a, b, c], [d, e, f]] (0, 2) = Inr (1, 0)"
  by (simp add: gridTarget_def gridKey_def colOverflow_def rowOverflow_def
        clampPosition_def nthOpt_def Let_def)

text \<open>
  C6 (column overflow). A grid state with the rows \<open>[a, b, c]\<close> and \<open>[d, e, f]\<close>, the
  position (0, 2) and the active item \<open>c\<close>. With none of \<open>col-flow\<close>, \<open>col-wrap\<close>,
  \<open>wrap\<close>, ArrowRight settles on (0, 2) and \<open>navigateGrid\<close> leaves state and page as
  they are. With \<open>col-flow\<close>, whatever the other tokens (so also with \<open>col-wrap\<close> or
  \<open>wrap\<close>), ArrowRight settles on (1, 0): the position and the active index move to
  \<open>d\<close>, the roving attribute is rewritten and \<open>d\<close> is focused.
\<close>

theorem grid_column_overflow:
  assumes "items st = Some xs" and "c \<in> set xs" and "d \<in> set xs"
    and "gridItems st = Some [[a, b, c], [d, e, f]]"
    and "gridPosition st = Some (0, 2)"
    and "activeIndex st = Some (indexOf xs c)"
    and "indexOf xs d \<noteq> indexOf xs c"
    and "tokens st = Some tk"
  shows "(\<not> colFlow tk \<and> \<not> colWrap tk \<and> \<not> wrap tk \<longrightarrow>
            gridTarget tk ArrowRight [[a, b, c], [d, e, f]] (0, 2) = Inr (0, 2)
            \<and> navigateGrid ArrowRight st p = Inr (st, p))
       \<and> (colFlow tk \<longrightarrow>
            gridTarget tk ArrowRight [[a, b, c], [d, e, f]] (0, 2) = Inr (1, 0)
            \<and> navigateGrid ArrowRight st p =
                Inr (st\<lparr>gridPosition := Some (1, 0), activeIndex := Some (indexOf xs d)\<rparr>,
                     (applyRovingTabindex xs (Some (indexOf xs d)) p)
                       \<lparr>focusRequests := focusRequests p @ [d]\<rparr>))"
proof (intro conjI impI)
  assume h: "\<not> colFlow tk \<and> \<not> colWrap tk \<and> \<not> wrap tk"
  then show t: "gridTarget tk ArrowRight [[a, b, c], [d, e, f]] (0, 2) = Inr (0, 2)"
    by (simp add: target_noflow)
  have same: "st\<lparr>gridPosition := Some (0, 2)\<rparr> = st" using assms(5) by simp
  have ic: "indexOf xs c > -1" using indexOf_mem[OF assms(2)] by simp
  have "navigateGrid ArrowRight st p =
          focusItemByIndex (indexOf xs c) (st\<lparr>gridPosition := Some (0, 2)\<rparr>) p"
    using ic by (simp add: navigateGrid_def assms(1,4,5,8) t nthOpt_def Let_def)
  also have "\<dots> = Inr (st, p)"
    by (simp add: same focusItemByIndex_def assms(6))
  finally show "navigateGrid ArrowRight st p = Inr (st, p)" .
next
  assume h: "colFlow tk"
  then show t: "gridTarget tk ArrowRight [[a, b, c], [d, e, f]] (0, 2) = Inr (1, 0)"
    by (simp add: target_flow)
  have idx: "0 \<le> indexOf xs d" "indexOf xs d < int (length xs)" "xs ! nat (indexOf xs d) = d"
    using indexOf_mem[OF assms(3)] by simp_all
  have "navigateGrid ArrowRight st p =
          focusItemByIndex (indexOf xs d) (st\<lparr>gridPosition := Some (1, 0)\<rparr>) p"
    using idx(1) by (simp add: navigateGrid_def assms(1,4,5,8) t nthOpt_def Let_def)
  also have "\<dots> = Inr (st\<lparr>gridPosition := Some (1, 0), activeIndex := Some (indexOf xs d)\<rparr>,
               (applyRovingTabindex xs (Some (indexOf xs d)) p)
                 \<lparr>focusRequests := focusRequests p @ [d]\<rparr>)"
    using idx assms(7) by (simp add: focusItemByIndex_def assms(1,6))
  finally show "navigateGrid ArrowRight st p =
          Inr (st\<lparr>gridPosition := Some (1, 0), activeIndex := Some (indexOf xs d)\<rparr>,
               (applyRovingTabindex xs (Some (indexOf xs d)) p)
                 \<lparr>focusRequests := focusRequests p @ [d]\<rparr>)" .
qed

text \<open>
  Witness for C6: two rows of three over the items 1 to 6, active at (0, 2), once with
  the attribute \<open>grid\<close> and once with \<open>grid col-flow\<close>.
\<close>

theorem grid_column_overflow_witness:
  "navigateGrid ArrowRight (twoRows ''grid'') emptyPage = Inr (twoRows ''grid'', emptyPage)
   \<and> gridTarget (parseTokens (Some ''grid col-flow'')) ArrowRight
        [[1, 2, 3], [4, 5, 6 :: nat]] (0, 2) = Inr (1, 0)
   \<and> (\<exists>st' p'. navigateGrid ArrowRight (twoRows ''grid col-flow'') emptyPage = Inr (st', p')
         \<and> gridPosition st' = Some (1, 0) \<and> activeIndex st' = Some 3
         \<and> focusRequests p' = [4])"
proof -
  have a: "\<not> colFlow (parseTokens (Some ''grid'')) \<and> \<not> colWrap (parseTokens (Some ''grid''))
        \<and> \<not> wrap (parseTokens (Some ''grid''))"
    by (simp add: parseTokens_def tok_grid)
  have b: "colFlow (parseTokens (Some ''grid col-flow''))"
    by (simp add: parseTokens_def tok_flow)
  have i3: "indexOf [1, 2, 3, 4, 5, 6 :: nat] 3 = 2" and i4: "indexOf [1, 2, 3, 4, 5, 6 :: nat] 4 = 3"
    by (simp_all add: Let_def)
  have "navigateGrid ArrowRight (twoRows ''grid'') emptyPage = Inr (twoRows ''grid'', emptyPage)"
    using grid_column_overflow [of "twoRows ''grid''" "[1, 2, 3, 4, 5, 6]" 3 4 1 2 5 6
        "parseTokens (Some ''grid'')" emptyPage] a
    by (simp add: twoRows_def i3 i4)
  moreover have "gridTarget (parseTokens (Some ''grid col-flow'')) ArrowRight
        [[1, 2, 3], [4, 5, 6 :: nat]] (0, 2) = Inr (1, 0)
     \<and> navigateGrid ArrowRight (twoRows ''grid col-flow'') emptyPage =
         Inr ((twoRows ''grid col-flow'')\<lparr>gridPosition := Some (1, 0), activeIndex := Some 3\<rparr>,
              (applyRovingTabindex [1, 2, 3, 4, 5, 6] (Some 3) emptyPage)
                \<lparr>focusRequests := focusRequests emptyPage @ [4]\<rparr>)"
    using grid_column_overflow [of "twoRows ''grid col-flow''" "[1, 2, 3, 4, 5, 6]" 3 4 1 2 5 6
        "parseTokens (Some ''grid col-flow'')" emptyPage] b
    by (simp add: twoRows_def i3 i4)
  ultimately show ?thesis by (simp add: emptyPage_def)
qed

subsection \<open>Runs on the example pages\<close>

lemmas eval_defs = step_def register_def unregister_def markDirty_def scheduleRebuild_def
  newState_def initial_def emptyPage_def
  runFrame_def rebuild_def Let_def parseTokens_def tok_grid tok_toolbar tok_none
  oldActiveElement_def itemsOrEmpty_def
  discoverItems_def examplePlatform_def listPage_def gridPage_def toolbarPage_def
  optedOutPage_def nestedPage_def
  isFocusable_def findGroupForElement_def
  findAncestorWithAttr_def groupChain_def saveOriginalAttributes_def restoreOriginalAttributes_def
  chooseActive_def deref_def
  buildGrid_def gridRowsOf_def sortByRect_def before_def nthOpt_def applyRovingTabindex_def
  onGlobalFocusIn_def onGlobalKeyDown_def groupOf_def focusInGroup_def tabRestore_def
  navKey_def onState_def keyDispatch_def navigateGrid_def navigateLinear_def linearTarget_def
  gridTarget_def
  gridKey_def colOverflow_def rowOverflow_def clampPosition_def focusItemByIndex_def
  api_def apiOnState_def focusItem_def

text \<open>
  C5 (grid position follows the active index). A grid of one row with the items 1, 2, 3
  is registered and rebuilt: item 1 is active at position (0, 0). Then focus arrives at
  item 3 (a click). The handler moves \<open>activeIndex\<close> to 2 and leaves \<open>gridPosition\<close>
  at (0, 0), where \<open>gridItems\<close> holds item 1, not the active item 3. ArrowLeft pressed
  next starts from the stale position and focuses item 1, passing over item 2. The
  programmatic \<open>focusLast\<close> leaves the same stale position behind.
\<close>

theorem focus_in_leaves_grid_position_stale:
  "(\<exists>eng st.
      run [(gridPage, Register 0), (gridPage, Frame), (gridPage, FocusIn 3)]
          (initial False emptyPage) = Inr eng
      \<and> heap eng 0 = Some st
      \<and> items st = Some [1, 2, 3] \<and> gridItems st = Some [[1, 2, 3]]
      \<and> activeIndex st = Some 2 \<and> gridPosition st = Some (0, 0))
   \<and> (\<exists>eng st.
      run [(gridPage, Register 0), (gridPage, Frame), (gridPage, FocusIn 3),
           (gridPage, KeyDown ''ArrowLeft'' (Some 3))]
          (initial False emptyPage) = Inr eng
      \<and> heap eng 0 = Some st
      \<and> activeIndex st = Some 0 \<and> focusRequests (doc eng) = [1])
   \<and> (\<exists>eng st.
      run [(gridPage, Register 0), (gridPage, Frame), (gridPage, Api 0 FocusLast)]
          (initial False emptyPage) = Inr eng
      \<and> heap eng 0 = Some st
      \<and> items st = Some [1, 2, 3] \<and> gridItems st = Some [[1, 2, 3]]
      \<and> activeIndex st = Some 2 \<and> gridPosition st = Some (0, 0))"
  by (simp add: eval_defs)

text \<open>
  C8 (restoration fidelity). A toolbar with the single item 1, which has no
  \<open>tabindex\<close> attribute, is registered and rebuilt: the snapshot of item 1 records the
  absent attribute and the item gets \<open>tabindex="0"\<close>. The container's attribute then
  becomes \<open>none\<close> and the group is rebuilt: the item list is emptied without a restore.
  When the group is unregistered, item 1 is no longer in its list: the attribute stays
  \<open>"0"\<close> and the snapshot stays in the map.
\<close>

theorem opted_out_items_not_restored:
  "\<exists>eng.
     run [(toolbarPage, Register 0), (toolbarPage, Frame), (optedOutPage, Dirty 0),
          (optedOutPage, Frame), (optedOutPage, Unregister 0)]
         (initial False emptyPage) = Inr eng
     \<and> groups eng 0 = None
     \<and> tabindexAttr emptyPage (1::nat) = None
     \<and> tabindexAttr (doc eng) 1 = Some ''0''
     \<and> originalAttributes (doc eng) 1 = Some \<lparr>tabindex = None, role = None\<rparr>"
  by (simp add: eval_defs)

text \<open>
  C2 (opt-out exclusion). A toolbar 0 whose only child 1 carries \<open>focusgroup="none"\<close>
  and is focusable, with a focusable child 2. Both containers are registered and
  rebuilt. The item list of the toolbar is \<open>[1]\<close>: the descendant 2 is excluded, the
  \<open>none\<close> container itself is an item of the enclosing group and gets the roving
  attribute.
\<close>

theorem opt_out_container_is_item:
  "\<exists>eng st.
     run [(nestedPage [(0, ''toolbar''), (1, ''none'')], Register 0),
          (nestedPage [(0, ''toolbar''), (1, ''none'')], Register 1),
          (nestedPage [(0, ''toolbar''), (1, ''none'')], Frame),
          (nestedPage [(0, ''toolbar''), (1, ''none'')], Frame)]
         (initial False emptyPage) = Inr eng
     \<and> heap eng 0 = Some st \<and> items st = Some [1]
     \<and> focusgroupAttr (nestedPage [(0, ''toolbar''), (1, ''none'')]) 1 = Some ''none''
     \<and> tabindexAttr (doc eng) 1 = Some ''0''"
  by (simp add: eval_defs)

subsection \<open>Memory on tab entry\<close>



subsection \<open>Item discovery\<close>




lemma find_append_None: "find P (xs @ ys) = None \<longleftrightarrow> find P xs = None \<and> find P ys = None"
  by (induction xs) auto

lemma light_suffix:
  "(n, anc) \<in> set (lightNodes a t) \<Longrightarrow> \<exists>pre. anc = pre @ a"
  and lightForest_suffix:
  "(n, anc) \<in> set (lightForest a ts) \<Longrightarrow> \<exists>pre. anc = pre @ a"
proof (induction a t and a ts rule: lightNodes_lightForest.induct)
  case (1 anc0 node children shadow)
  from "1.prems" have "(n, anc) = (node, anc0) \<or> (n, anc) \<in> set (lightForest (node # anc0) children)"
    by simp
  then show ?case
  proof
    assume "(n, anc) = (node, anc0)"
    then show ?thesis by simp
  next
    assume "(n, anc) \<in> set (lightForest (node # anc0) children)"
    then obtain pre where "anc = pre @ node # anc0" using "1.IH" by blast
    then have "anc = (pre @ [node]) @ anc0" by simp
    then show ?thesis by blast
  qed
next
  case (2 anc0)
  then show ?case by simp
next
  case (3 anc0 c cs)
  then show ?case by auto
qed

lemma isFocusable_html: "isFocusable pf tab n \<Longrightarrow> isHTMLElement pf n"
  by (auto simp: isFocusable_def split: if_splits)

lemma discoverNode_accept:
  "isFocusable pf tab node \<Longrightarrow> findGroupForElement pf has (groupChain ish anc full) = None \<Longrightarrow>
   findAncestorWithAttr pf ''none'' anc = None \<Longrightarrow>
   discoverNode pf tab has si ish anc full (Element node children shadow)
     = node # discoverNodes pf tab has si ish (node # anc) (node # full) children"
  using isFocusable_html[of pf tab node] by simp

lemma discoverNode_kids:
  "findGroupForElement pf has (groupChain ish anc full) = None \<Longrightarrow>
   findAncestorWithAttr pf ''none'' anc = None \<Longrightarrow>
   set (discoverNodes pf tab has si ish (node # anc) (node # full) children)
     \<subseteq> set (discoverNode pf tab has si ish anc full (Element node children shadow))"
  by (cases "isHTMLElement pf node"; cases "isFocusable pf tab node"; cases si; cases shadow)
     (simp_all add: subset_insertI)

lemma discoverNode_shape_light:
  "discoverNode pf tab has False ish anc full (Element node children shadow) = []
   \<or> discoverNode pf tab has False ish anc full (Element node children shadow)
       = discoverNodes pf tab has False ish (node # anc) (node # full) children
   \<or> (discoverNode pf tab has False ish anc full (Element node children shadow)
       = node # discoverNodes pf tab has False ish (node # anc) (node # full) children
      \<and> isFocusable pf tab node
      \<and> findGroupForElement pf has (groupChain ish anc full) = None
      \<and> findAncestorWithAttr pf ''none'' anc = None)"
  by (cases "isHTMLElement pf node"; cases "findGroupForElement pf has (groupChain ish anc full)";
      cases "findAncestorWithAttr pf ''none'' anc"; cases "isFocusable pf tab node"; simp)

lemma discover_includes:
  "(n, anc) \<in> set (lightNodes a t) \<Longrightarrow> isFocusable pf tab n \<Longrightarrow>
     findGroupForElement pf has anc = None \<Longrightarrow> findAncestorWithAttr pf ''none'' anc = None \<Longrightarrow>
     n \<in> set (discoverNode pf tab has si False a full t)"
  and discoverNodes_includes:
  "(n, anc) \<in> set (lightForest a ts) \<Longrightarrow> isFocusable pf tab n \<Longrightarrow>
     findGroupForElement pf has anc = None \<Longrightarrow> findAncestorWithAttr pf ''none'' anc = None \<Longrightarrow>
     n \<in> set (discoverNodes pf tab has si False a full ts)"
proof (induction a t and a ts arbitrary: full and full rule: lightNodes_lightForest.induct)
  case (1 anc0 node children shadow)
  from "1.prems"(1) have "(n, anc) = (node, anc0) \<or> (n, anc) \<in> set (lightForest (node # anc0) children)"
    by simp
  then show ?case
  proof
    assume e: "(n, anc) = (node, anc0)"
    have "discoverNode pf tab has si False anc0 full (Element node children shadow)
       = node # discoverNodes pf tab has si False (node # anc0) (node # full) children"
      using "1.prems"(2,3,4) e by (intro discoverNode_accept) (simp_all add: groupChain_def)
    then show ?thesis using e by simp
  next
    assume m: "(n, anc) \<in> set (lightForest (node # anc0) children)"
    then obtain pre where pre: "anc = (pre @ [node]) @ anc0"
      using lightForest_suffix[OF m] by auto
    have c0: "findGroupForElement pf has anc0 = None" "findAncestorWithAttr pf ''none'' anc0 = None"
      using "1.prems"(3,4) unfolding pre findGroupForElement_def findAncestorWithAttr_def
        find_append_None by simp_all
    have "n \<in> set (discoverNodes pf tab has si False (node # anc0) (node # full) children)"
      using "1.IH"[OF m "1.prems"(2,3,4)] .
    moreover have "set (discoverNodes pf tab has si False (node # anc0) (node # full) children)
        \<subseteq> set (discoverNode pf tab has si False anc0 full (Element node children shadow))"
      using c0 by (intro discoverNode_kids) (simp_all add: groupChain_def)
    ultimately show ?thesis by (rule rev_subsetD)
  qed
next
  case (2 anc0)
  then show ?case by simp
next
  case (3 anc0 c cs)
  from "3.prems"(1) have "(n, anc) \<in> set (lightNodes anc0 c) \<or> (n, anc) \<in> set (lightForest anc0 cs)"
    by simp
  then show ?case
  proof
    assume "(n, anc) \<in> set (lightNodes anc0 c)"
    then show ?thesis using "3.IH"(1) "3.prems"(2,3,4) by simp
  next
    assume "(n, anc) \<in> set (lightForest anc0 cs)"
    then show ?thesis using "3.IH"(2) "3.prems"(2,3,4) by simp
  qed
qed

lemma discover_only:
  "n \<in> set (discoverNode pf tab has False False a full t) \<Longrightarrow>
     \<exists>anc. (n, anc) \<in> set (lightNodes a t) \<and> isFocusable pf tab n
        \<and> findGroupForElement pf has anc = None \<and> findAncestorWithAttr pf ''none'' anc = None"
  and discoverNodes_only:
  "n \<in> set (discoverNodes pf tab has False False a full ts) \<Longrightarrow>
     \<exists>anc. (n, anc) \<in> set (lightForest a ts) \<and> isFocusable pf tab n
        \<and> findGroupForElement pf has anc = None \<and> findAncestorWithAttr pf ''none'' anc = None"
proof (induction a t and a ts arbitrary: full and full rule: lightNodes_lightForest.induct)
  case (1 anc0 node children shadow)
  let ?kids = "discoverNodes pf tab has False False (node # anc0) (node # full) children"
  have kid: "\<exists>anc. (n, anc) \<in> set (lightNodes anc0 (Element node children shadow))
        \<and> isFocusable pf tab n
        \<and> findGroupForElement pf has anc = None \<and> findAncestorWithAttr pf ''none'' anc = None"
    if nk: "n \<in> set ?kids"
  proof -
    obtain anc where "(n, anc) \<in> set (lightForest (node # anc0) children)" "isFocusable pf tab n"
      "findGroupForElement pf has anc = None" "findAncestorWithAttr pf ''none'' anc = None"
      using "1.IH"[OF nk] by blast
    then show ?thesis by (intro exI[of _ anc]) simp
  qed
  from discoverNode_shape_light[of pf tab has False anc0 full node children shadow]
  show ?case
  proof (elim disjE conjE)
    assume "discoverNode pf tab has False False anc0 full (Element node children shadow) = []"
    then show ?thesis using "1.prems" by simp
  next
    assume "discoverNode pf tab has False False anc0 full (Element node children shadow) = ?kids"
    then show ?thesis using "1.prems" kid by simp
  next
    assume eq: "discoverNode pf tab has False False anc0 full (Element node children shadow)
        = node # ?kids"
      and f: "isFocusable pf tab node"
      and g: "findGroupForElement pf has (groupChain False anc0 full) = None"
      and h: "findAncestorWithAttr pf ''none'' anc0 = None"
    from "1.prems" eq have "n = node \<or> n \<in> set ?kids" by simp
    then show ?thesis
    proof
      assume "n = node"
      then show ?thesis using f g h by (intro exI[of _ anc0]) (simp add: groupChain_def)
    next
      assume "n \<in> set ?kids"
      then show ?thesis by (rule kid)
    qed
  qed
next
  case (2 anc0)
  then show ?case by simp
next
  case (3 anc0 c cs)
  from "3.prems" have "n \<in> set (discoverNode pf tab has False False anc0 full c)
      \<or> n \<in> set (discoverNodes pf tab has False False anc0 full cs)" by simp
  then show ?case
  proof
    assume "n \<in> set (discoverNode pf tab has False False anc0 full c)"
    then obtain anc where "(n, anc) \<in> set (lightNodes anc0 c)" "isFocusable pf tab n"
      "findGroupForElement pf has anc = None" "findAncestorWithAttr pf ''none'' anc = None"
      using "3.IH"(1) by blast
    then show ?thesis by (intro exI[of _ anc]) simp
  next
    assume "n \<in> set (discoverNodes pf tab has False False anc0 full cs)"
    then obtain anc where "(n, anc) \<in> set (lightForest anc0 cs)" "isFocusable pf tab n"
      "findGroupForElement pf has anc = None" "findAncestorWithAttr pf ''none'' anc = None"
      using "3.IH"(2) by blast
    then show ?thesis by (intro exI[of _ anc]) simp
  qed
qed




subsection \<open>Roving uniqueness\<close>

lemma indexOf_nth: "distinct xs \<Longrightarrow> i < length xs \<Longrightarrow> indexOf xs (xs ! i) = int i"
proof (induction xs arbitrary: i)
  case Nil
  then show ?case by simp
next
  case (Cons y ys)
  then show ?case by (cases i) (auto simp: Let_def)
qed
















lemma discoverNode_shape:
  "discoverNode pf tab has si ish anc full (Element node children shadow) = []
   \<or> discoverNode pf tab has si ish anc full (Element node children shadow)
       = discoverNodes pf tab has si ish (node # anc) (node # full) children
   \<or> discoverNode pf tab has si ish anc full (Element node children shadow)
       = node # discoverNodes pf tab has si ish (node # anc) (node # full) children
   \<or> (\<exists>inner. shadow = Some inner
         \<and> discoverNode pf tab has si ish anc full (Element node children shadow)
             = discoverNodes pf tab has si True [] (node # full) inner
               @ discoverNodes pf tab has si ish (node # anc) (node # full) children)"
  by (cases "isHTMLElement pf node"; cases "findGroupForElement pf has (groupChain ish anc full)";
      cases "findAncestorWithAttr pf ''none'' anc"; cases "isFocusable pf tab node";
      cases si; cases shadow; simp)

lemma discover_subset:
  "set (discoverNode pf tab has si ish anc full t) \<subseteq> set (allNodes t)"
  and discoverNodes_subset:
    "set (discoverNodes pf tab has si ish anc full ts) \<subseteq> set (allForest ts)"
proof (induction t and ts arbitrary: ish anc full and ish anc full rule: allNodes_allForest.induct)
  case (1 node children shadow)
  have c: "set (discoverNodes pf tab has si i a f children) \<subseteq> set (allForest children)" for i a f
    using "1.IH"(2) .
  have s: "set (discoverNodes pf tab has si i a f inner) \<subseteq> set (allForest inner)"
    if "shadow = Some inner" for i a f inner
    using "1.IH"(1)[OF that] .
  have a: "set (allNodes (Element node children shadow))
      = insert node (set (case shadow of None \<Rightarrow> [] | Some inner \<Rightarrow> allForest inner)
          \<union> set (allForest children))"
    by simp
  from discoverNode_shape[of pf tab has si ish anc full node children shadow]
  show ?case
  proof (elim disjE exE conjE)
    assume "discoverNode pf tab has si ish anc full (Element node children shadow) = []"
    then show ?thesis by simp
  next
    assume "discoverNode pf tab has si ish anc full (Element node children shadow)
       = discoverNodes pf tab has si ish (node # anc) (node # full) children"
    then show ?thesis unfolding a using c[of ish "node # anc" "node # full"] by auto
  next
    assume "discoverNode pf tab has si ish anc full (Element node children shadow)
       = node # discoverNodes pf tab has si ish (node # anc) (node # full) children"
    then show ?thesis unfolding a using c[of ish "node # anc" "node # full"] by auto
  next
    fix inner
    assume sh: "shadow = Some inner"
      and "discoverNode pf tab has si ish anc full (Element node children shadow)
             = discoverNodes pf tab has si True [] (node # full) inner
               @ discoverNodes pf tab has si ish (node # anc) (node # full) children"
    then show ?thesis unfolding a
      using c[of ish "node # anc" "node # full"] s[OF sh, of True "[]" "node # full"] by auto
  qed
next
  case 2
  then show ?case by simp
next
  case (3 c cs)
  have "set (discoverNode pf tab has si ish anc full c) \<subseteq> set (allNodes c)"
    "set (discoverNodes pf tab has si ish anc full cs) \<subseteq> set (allForest cs)"
    using 3 by blast+
  then show ?case by auto
qed

lemma discover_distinct:
  "distinct (allNodes t) \<Longrightarrow> distinct (discoverNode pf tab has si ish anc full t)"
  and discoverNodes_distinct:
    "distinct (allForest ts) \<Longrightarrow> distinct (discoverNodes pf tab has si ish anc full ts)"
proof (induction t and ts arbitrary: ish anc full and ish anc full rule: allNodes_allForest.induct)
  case (1 node children shadow)
  let ?kids = "discoverNodes pf tab has si ish (node # anc) (node # full) children"
  have sub: "set ?kids \<subseteq> set (allForest children)"
    by (rule discoverNodes_subset)
  have dc: "distinct ?kids"
    using "1.IH"(2) "1.prems" by simp
  have nk: "node \<notin> set ?kids" using sub "1.prems" by auto
  from discoverNode_shape[of pf tab has si ish anc full node children shadow]
  show ?case
  proof (elim disjE exE conjE)
    assume "discoverNode pf tab has si ish anc full (Element node children shadow) = []"
    then show ?thesis by simp
  next
    assume "discoverNode pf tab has si ish anc full (Element node children shadow) = ?kids"
    then show ?thesis using dc by simp
  next
    assume "discoverNode pf tab has si ish anc full (Element node children shadow) = node # ?kids"
    then show ?thesis using dc nk by simp
  next
    fix inner
    let ?in = "discoverNodes pf tab has si True [] (node # full) inner"
    assume sh: "shadow = Some inner"
      and eq: "discoverNode pf tab has si ish anc full (Element node children shadow) = ?in @ ?kids"
    have subi: "set ?in \<subseteq> set (allForest inner)" by (rule discoverNodes_subset)
    have di: "distinct ?in" using "1.IH"(1)[OF sh] "1.prems" sh by simp
    have "set (allForest inner) \<inter> set (allForest children) = {}"
      using "1.prems" sh by simp
    then have "set ?in \<inter> set ?kids = {}" using subi sub by blast
    then show ?thesis using eq di dc by simp
  qed
next
  case 2
  then show ?case by simp
next
  case (3 c cs)
  have "set (discoverNode pf tab has si ish anc full c) \<subseteq> set (allNodes c)"
    "set (discoverNodes pf tab has si ish anc full cs) \<subseteq> set (allForest cs)"
    by (rule discover_subset discoverNodes_subset)+
  moreover have "set (allNodes c) \<inter> set (allForest cs) = {}" using "3.prems" by simp
  ultimately have "set (discoverNode pf tab has si ish anc full c)
      \<inter> set (discoverNodes pf tab has si ish anc full cs) = {}" by blast
  then show ?case using 3 by simp
qed



lemma tabindex_fold_save: "tabindexAttr (fold saveOriginalAttributes xs p) = tabindexAttr p"
  by (induction xs arbitrary: p) (auto simp: saveOriginalAttributes_def)
























































subsection \<open>Rebuild scheduling\<close>


































end
